theory Spec2Isabelle
  imports Main "HOL-Library.Multiset"
begin

section \<open>Go values used by the bookshelf packages\<close>

subsection \<open>Errors\<close>

text \<open>
  The program builds every error of its own with \<^verbatim>\<open>fmt.Errorf\<close>. Without the
  verb \<^verbatim>\<open>%w\<close> the result is a plain error that carries a message and has no
  cause; with \<^verbatim>\<open>%w\<close> it is a wrapping error that carries the formatted message
  and the wrapped error. Errors that come from the database driver or from a cancelled
  context are leaves as well and are represented by their message. A sentinel such as
  \<^verbatim>\<open>ErrMockNotImplemented\<close> is compared by identity in Go; here two leaves are
  the same error when their messages are the same.
\<close>

datatype error = ErrorString string | WrapError string error

fun Error :: "error \<Rightarrow> string" where
  "Error (ErrorString s) = s"
| "Error (WrapError msg err) = msg"

text \<open>\<^verbatim>\<open>fmt.Errorf(prefix + "%w", err)\<close>: the message is the prefix followed by
  the message of \<open>err\<close>, and \<open>err\<close> is kept as the cause.\<close>

definition Errorf_w :: "string \<Rightarrow> error \<Rightarrow> error" where
  "Errorf_w prefix err = WrapError (prefix @ Error err) err"

text \<open>\<^verbatim>\<open>errors.Unwrap\<close> and \<^verbatim>\<open>errors.Is\<close> of the standard library.\<close>

fun Unwrap :: "error \<Rightarrow> error option" where
  "Unwrap (ErrorString s) = None"
| "Unwrap (WrapError msg err) = Some err"

fun Is :: "error \<Rightarrow> error \<Rightarrow> bool" where
  "Is (ErrorString s) target = (ErrorString s = target)"
| "Is (WrapError msg err) target = (WrapError msg err = target \<or> Is err target)"

subsection \<open>Contexts, results, identifiers\<close>

text \<open>
  A \<^verbatim>\<open>context.Context\<close> is passed through unchanged by the service and the
  store; only the database driver looks at it. It is represented by the value of
  \<^verbatim>\<open>ctx.Err()\<close>: \<open>None\<close> while the context is live, \<open>Some e\<close> once it is cancelled
  or past its deadline.
\<close>

type_synonym Context = "error option"

text \<open>
  Go's \<^verbatim>\<open>int64\<close> and PostgreSQL's \<^verbatim>\<open>bigint\<close> have the same range. The
  program does no arithmetic on identifiers; the only arithmetic is the sequence of the
  table, which fails at its maximum instead of wrapping (see \<open>pg_insert\<close>). Identifiers
  are therefore integers, with that bound written out where it matters.
\<close>

type_synonym int64 = int

definition MaxInt64 :: int where
  "MaxInt64 = 9223372036854775807"

text \<open>
  A Go function of result type \<^verbatim>\<open>(*T, error)\<close> returns a pair whose components
  may each be \<^verbatim>\<open>nil\<close>, so the pair is a pair of options. A function that can
  dereference a nil pointer has the further outcome of a panic.
\<close>

datatype 'a go_result = Returns "'a option" "error option" | Panics

subsection \<open>The domain model (package library)\<close>

record Book =
  ID :: int64
  Title :: string
  Author :: string

section \<open>The database handle (sqlx.DB) as seen by the store\<close>

text \<open>
  The store reaches the database through four methods of \<^verbatim>\<open>*sqlx.DB\<close>. The
  library is not part of the repository, so the handle is a record of these four
  methods over a database state \<open>'db\<close>; every method returns the state it leaves behind.
  Statement arguments are SQL values.

  A result set (\<^verbatim>\<open>*sqlx.Rows\<close>) is what the loop of \<open>GetBooks\<close> can observe of
  it: for every row that \<^verbatim>\<open>rows.Next()\<close> delivers, the outcome of
  \<^verbatim>\<open>rows.Scan(&book.ID, &book.Title, &book.Author)\<close>, and the error, if any, that
  ended the iteration (\<^verbatim>\<open>rows.Err()\<close>; \<^verbatim>\<open>Next\<close> returns false both at the
  end of the rows and when fetching the next row failed).
\<close>

datatype sqlval = SqlInt int64 | SqlText string

type_synonym scanned = "int64 \<times> string \<times> string"

record Rows =
  delivered :: "(error + scanned) list"
  rows_Err :: "error option"

record 'db sqlx_DB =
  GetContext :: "Context \<Rightarrow> string \<Rightarrow> sqlval list \<Rightarrow> 'db \<Rightarrow> (error + int64) \<times> 'db"
  ExecContext :: "Context \<Rightarrow> string \<Rightarrow> sqlval list \<Rightarrow> 'db \<Rightarrow> (error + nat) \<times> 'db"
  QueryRowxContext_Scan ::
    "Context \<Rightarrow> string \<Rightarrow> sqlval list \<Rightarrow> 'db \<Rightarrow> (error + scanned) \<times> 'db"
  QueryxContext :: "Context \<Rightarrow> string \<Rightarrow> sqlval list \<Rightarrow> 'db \<Rightarrow> (error + Rows) \<times> 'db"

section \<open>The persistence adapter (package store, lesson 04-persistence-end)\<close>

record 'db LibraryStore =
  DB :: "'db sqlx_DB"

definition q_CreateBook :: string where
  "q_CreateBook = ''INSERT INTO books (title, author) VALUES ($1, $2) RETURNING id;''"

definition q_DeleteBook :: string where
  "q_DeleteBook = ''DELETE FROM books WHERE id = $1;''"

definition q_GetBookByID :: string where
  "q_GetBookByID = ''SELECT id, title, author FROM books WHERE id = $1;''"

definition q_GetBooks :: string where
  "q_GetBooks = ''SELECT id, title, author FROM books ORDER BY id ASC;''"

text \<open>\<^verbatim>\<open>func (s *LibraryStore) CreateBook(ctx, title, author string) (*library.Book, error)\<close>\<close>

definition store_CreateBook ::
  "'db LibraryStore \<Rightarrow> Context \<Rightarrow> string \<Rightarrow> string \<Rightarrow> 'db
     \<Rightarrow> (Book option \<times> error option) \<times> 'db" where
  "store_CreateBook s ctx title author db =
     (case GetContext (DB s) ctx q_CreateBook [SqlText title, SqlText author] db of
        (Inl err, db') \<Rightarrow> ((None, Some (Errorf_w ''create book: '' err)), db')
      | (Inr bid, db') \<Rightarrow> ((Some \<lparr>ID = bid, Title = title, Author = author\<rparr>, None), db'))"

text \<open>\<^verbatim>\<open>func (s *LibraryStore) DeleteBook(ctx, id int64) error\<close>; the
  \<^verbatim>\<open>sql.Result\<close> of the statement is discarded.\<close>

definition store_DeleteBook ::
  "'db LibraryStore \<Rightarrow> Context \<Rightarrow> int64 \<Rightarrow> 'db \<Rightarrow> error option \<times> 'db" where
  "store_DeleteBook s ctx bid db =
     (case ExecContext (DB s) ctx q_DeleteBook [SqlInt bid] db of
        (Inl err, db') \<Rightarrow> (Some (Errorf_w ''delete book: '' err), db')
      | (Inr _, db') \<Rightarrow> (None, db'))"

text \<open>\<^verbatim>\<open>func (s *LibraryStore) GetBookByID(ctx, id int64) (*library.Book, error)\<close>\<close>

definition store_GetBookByID ::
  "'db LibraryStore \<Rightarrow> Context \<Rightarrow> int64 \<Rightarrow> 'db \<Rightarrow> (Book option \<times> error option) \<times> 'db" where
  "store_GetBookByID s ctx bid db =
     (case QueryRowxContext_Scan (DB s) ctx q_GetBookByID [SqlInt bid] db of
        (Inl err, db') \<Rightarrow> ((None, Some (Errorf_w ''get book by id: '' err)), db')
      | (Inr (i, t, a), db') \<Rightarrow> ((Some \<lparr>ID = i, Title = t, Author = a\<rparr>, None), db'))"

text \<open>
  The loop of \<open>GetBooks\<close>: \<^verbatim>\<open>for rows.Next() { ... }\<close> over the delivered rows,
  with the slice built so far. A failed scan returns at once with a nil slice; when
  \<^verbatim>\<open>Next\<close> returns false the function returns the slice and a nil error.
  Every appended pointer is to a variable declared inside the loop body, so the slice
  is represented by the list of the books pointed to.
\<close>

fun scan_books :: "(error + scanned) list \<Rightarrow> Book list \<Rightarrow> Book list option \<times> error option" where
  "scan_books [] books = (Some books, None)"
| "scan_books (Inl err # rest) books = (None, Some (Errorf_w ''get books: '' err))"
| "scan_books (Inr (i, t, a) # rest) books =
     scan_books rest (books @ [\<lparr>ID = i, Title = t, Author = a\<rparr>])"

text \<open>\<^verbatim>\<open>func (s *LibraryStore) GetBooks(ctx) ([]*library.Book, error)\<close>. The slice
  starts as the empty, non-nil \<^verbatim>\<open>[]*library.Book{}\<close>; a nil slice is \<open>None\<close>.
  The function never calls \<^verbatim>\<open>rows.Err()\<close>, so \<open>rows_Err\<close> is not read; the
  deferred \<^verbatim>\<open>rows.Close()\<close> has no part in the result.\<close>

definition store_GetBooks ::
  "'db LibraryStore \<Rightarrow> Context \<Rightarrow> 'db \<Rightarrow> (Book list option \<times> error option) \<times> 'db" where
  "store_GetBooks s ctx db =
     (case QueryxContext (DB s) ctx q_GetBooks [] db of
        (Inl err, db') \<Rightarrow> ((None, Some (Errorf_w ''get books: '' err)), db')
      | (Inr rows, db') \<Rightarrow> (scan_books (delivered rows) [], db'))"

text \<open>
  The helper of the store's tests that inserts several books in the order of
  \<open>params\<close> and collects their identifiers (\<^verbatim>\<open>createManyBooks\<close> in the version
  that calls \<^verbatim>\<open>CreateBook(ctx, title, author)\<close>, without the registration of the
  clean-up). Each parameter is a slice of strings of which the first
  two are read; a shorter one makes the index expression panic. An error of
  \<open>CreateBook\<close> is returned as it is.
\<close>

fun createManyBooks ::
  "'db LibraryStore \<Rightarrow> Context \<Rightarrow> string list list \<Rightarrow> int64 list \<Rightarrow> 'db
     \<Rightarrow> int64 list go_result \<times> 'db" where
  "createManyBooks ls ctx [] ids db = (Returns (Some ids) None, db)"
| "createManyBooks ls ctx (p # ps) ids db =
     (case p of
        t # a # _ \<Rightarrow>
          (case store_CreateBook ls ctx t a db of
             ((_, Some err), db') \<Rightarrow> (Returns None (Some err), db')
           | ((None, None), db') \<Rightarrow> (Panics, db')
           | ((Some b, None), db') \<Rightarrow> createManyBooks ls ctx ps (ids @ [ID b]) db')
      | _ \<Rightarrow> (Panics, db))"

section \<open>The domain service (package service)\<close>

text \<open>
  The service depends on the store through the interface \<^verbatim>\<open>service.LibraryStore\<close>
  (three methods). An implementation is a record of the three methods over its own
  state \<open>'s\<close>. The service is taken to be wired to a store: a nil \<^verbatim>\<open>Store\<close>
  field, on which every method call panics, is not represented.
\<close>

record 's service_LibraryStore =
  CreateBook :: "Context \<Rightarrow> string \<Rightarrow> string \<Rightarrow> 's \<Rightarrow> (Book option \<times> error option) \<times> 's"
  GetBookByID :: "Context \<Rightarrow> int64 \<Rightarrow> 's \<Rightarrow> (Book option \<times> error option) \<times> 's"
  GetBooks :: "Context \<Rightarrow> 's \<Rightarrow> (Book list option \<times> error option) \<times> 's"

record 's LibraryService =
  Store :: "'s service_LibraryStore"

text \<open>The request and response types. Their fields are \<^verbatim>\<open>Title\<close>,
  \<^verbatim>\<open>Author\<close>, \<^verbatim>\<open>ID\<close>, \<^verbatim>\<open>Book\<close> and \<^verbatim>\<open>Books\<close> in the source;
  here each carries the name of its operation, since field names are global.\<close>

record AddBookRequest =
  AddBook_Title :: string
  AddBook_Author :: string

record AddBookResponse =
  AddBook_Book :: "Book option"

record GetBookRequest =
  GetBook_ID :: int64

record GetBookResponse =
  GetBook_Book :: "Book option"

record GetBooksResponse =
  GetBooks_Books :: "Book list option"

text \<open>
  \<^verbatim>\<open>func (ls *LibraryService) AddBook(ctx, req AddBookRequest) (*AddBookResponse, error)\<close>:
  the two validation checks of lesson 3 at the top, then the call of the store. After a
  successful call the method logs \<^verbatim>\<open>book.ID\<close> and \<^verbatim>\<open>book.Title\<close>, which
  panics when the store returned a nil book together with a nil error. The line written
  to the process log is not represented.
\<close>

definition service_AddBook ::
  "'s LibraryService \<Rightarrow> Context \<Rightarrow> AddBookRequest \<Rightarrow> 's \<Rightarrow> AddBookResponse go_result \<times> 's" where
  "service_AddBook ls ctx req st =
     (if AddBook_Title req = [] then
        (Returns None (Some (ErrorString ''add book: title can't be blank'')), st)
      else if AddBook_Author req = [] then
        (Returns None (Some (ErrorString ''add book: author can't be blank'')), st)
      else
        (case CreateBook (Store ls) ctx (AddBook_Title req) (AddBook_Author req) st of
           ((_, Some err), st') \<Rightarrow> (Returns None (Some (Errorf_w ''add book: '' err)), st')
         | ((None, None), st') \<Rightarrow> (Panics, st')
         | ((Some book, None), st') \<Rightarrow>
             (Returns (Some \<lparr>AddBook_Book = Some book\<rparr>) None, st')))"

text \<open>\<^verbatim>\<open>func (ls *LibraryService) GetBook(ctx, req GetBookRequest) (*GetBookResponse, error)\<close>\<close>

definition service_GetBook ::
  "'s LibraryService \<Rightarrow> Context \<Rightarrow> GetBookRequest \<Rightarrow> 's
     \<Rightarrow> (GetBookResponse option \<times> error option) \<times> 's" where
  "service_GetBook ls ctx req st =
     (case GetBookByID (Store ls) ctx (GetBook_ID req) st of
        ((_, Some err), st') \<Rightarrow> ((None, Some (Errorf_w ''get book: '' err)), st')
      | ((book, None), st') \<Rightarrow> ((Some \<lparr>GetBook_Book = book\<rparr>, None), st'))"

text \<open>\<^verbatim>\<open>func (ls *LibraryService) GetBooks(ctx, req GetBooksRequest) (*GetBooksResponse, error)\<close>;
  the request has no fields.\<close>

definition service_GetBooks ::
  "'s LibraryService \<Rightarrow> Context \<Rightarrow> unit \<Rightarrow> 's
     \<Rightarrow> (GetBooksResponse option \<times> error option) \<times> 's" where
  "service_GetBooks ls ctx req st =
     (case GetBooks (Store ls) ctx st of
        ((_, Some err), st') \<Rightarrow> ((None, Some (Errorf_w ''get books: '' err)), st')
      | ((bs, None), st') \<Rightarrow> ((Some \<lparr>GetBooks_Books = bs\<rparr>, None), st'))"

text \<open>The store of package store implements the interface with its three methods of
  the same names.\<close>

definition store_iface :: "'db LibraryStore \<Rightarrow> 'db service_LibraryStore" where
  "store_iface s =
     \<lparr>CreateBook = store_CreateBook s, GetBookByID = store_GetBookByID s,
      GetBooks = store_GetBooks s\<rparr>"

section \<open>The test double of the service tests (mockStore)\<close>

text \<open>
  The mock records the arguments of every call of \<open>CreateBook\<close> that it forwards and
  forwards the call to the behaviour function of the test, if there is one. The
  behaviour function is a Go closure; the ones of the tests compute a result from the
  arguments, so it is a function here.
\<close>

record mockStore =
  CreateBookCalledWith :: "(Context \<times> string \<times> string) list"
  CreateBookFn :: "(Context \<Rightarrow> string \<Rightarrow> string \<Rightarrow> Book option \<times> error option) option"

definition ErrMockNotImplemented :: error where
  "ErrMockNotImplemented = ErrorString ''mock not implemented''"

definition mockStore_CreateBook ::
  "Context \<Rightarrow> string \<Rightarrow> string \<Rightarrow> mockStore \<Rightarrow> (Book option \<times> error option) \<times> mockStore" where
  "mockStore_CreateBook ctx title author ms =
     (case CreateBookFn ms of
        None \<Rightarrow> ((None, Some ErrMockNotImplemented), ms)
      | Some fn \<Rightarrow>
          (fn ctx title author,
           ms\<lparr>CreateBookCalledWith := CreateBookCalledWith ms @ [(ctx, title, author)]\<rparr>))"

definition mockStore_GetBookByID ::
  "Context \<Rightarrow> int64 \<Rightarrow> mockStore \<Rightarrow> (Book option \<times> error option) \<times> mockStore" where
  "mockStore_GetBookByID ctx bid ms = ((None, Some (ErrorString ''TODO'')), ms)"

definition mockStore_GetBooks ::
  "Context \<Rightarrow> mockStore \<Rightarrow> (Book list option \<times> error option) \<times> mockStore" where
  "mockStore_GetBooks ctx ms = ((None, Some (ErrorString ''TODO'')), ms)"

definition mock_iface :: "mockStore service_LibraryStore" where
  "mock_iface =
     \<lparr>CreateBook = mockStore_CreateBook, GetBookByID = mockStore_GetBookByID,
      GetBooks = mockStore_GetBooks\<rparr>"

text \<open>
  A test may set \<open>CreateBookFn\<close> before any call. A run of the mock is a list of calls
  of \<open>CreateBook\<close>, each with the behaviour function in place at that call.
\<close>

fun mock_calls ::
  "((Context \<Rightarrow> string \<Rightarrow> string \<Rightarrow> Book option \<times> error option) option
      \<times> Context \<times> string \<times> string) list \<Rightarrow> mockStore \<Rightarrow> mockStore" where
  "mock_calls [] ms = ms"
| "mock_calls ((fn, ctx, title, author) # calls) ms =
     mock_calls calls (snd (mockStore_CreateBook ctx title author (ms\<lparr>CreateBookFn := fn\<rparr>)))"

section \<open>The books table behind the handle\<close>

text \<open>
  What the store returns for stored books depends on what PostgreSQL does with the four
  statements, so the handle is instantiated with the table of the migration
  \<^verbatim>\<open>20220406.0-add-book-table.sql\<close>:
  \<^verbatim>\<open>
  CREATE TABLE books (
      id         BIGSERIAL PRIMARY KEY,
      title      TEXT NOT NULL CHECK (length(title) > 0),
      author     TEXT NOT NULL CHECK (length(author) > 0),
      created_at TIMESTAMPTZ DEFAULT NOW());
  \<close>
  The state is the list of rows in storage order (no statement of the store reads
  \<^verbatim>\<open>created_at\<close>, which is left out), the next value of the sequence behind
  \<^verbatim>\<open>BIGSERIAL\<close>, and the condition of the connection: up, down (every statement
  fails with the given error), or dropping while a result set is streamed, after the
  given number of rows. Which texts the server accepts for a \<^verbatim>\<open>TEXT\<close> value depends
  on its encoding and is part of the state as well; a text with a zero byte is accepted
  by no server.
\<close>

datatype conn_state = Up | Down error | DropsAfter nat error

record pg =
  books :: "scanned list"
  books_id_seq :: int
  conn :: conn_state
  text_accepted :: "string \<Rightarrow> bool"

text \<open>
  The texts that a server of encoding \<^verbatim>\<open>UTF8\<close> accepts are the well-formed UTF-8
  byte sequences: one byte below \<open>0x80\<close>, or a lead byte from \<open>0xC2\<close> to \<open>0xF4\<close> with one
  to three continuation bytes, without overlong forms, surrogates or code points above
  \<open>U+10FFFF\<close>.
\<close>

fun utf8_bytes :: "nat list \<Rightarrow> bool" where
  "utf8_bytes [] = True"
| "utf8_bytes (b # bs) =
     (if b < 0x80 then utf8_bytes bs
      else if b < 0xC2 then False
      else if b < 0xE0 then
        (case bs of c # r \<Rightarrow> 0x80 \<le> c \<and> c < 0xC0 \<and> utf8_bytes r | _ \<Rightarrow> False)
      else if b < 0xF0 then
        (case bs of
           c # d # r \<Rightarrow>
             (if b = 0xE0 then 0xA0 \<le> c else 0x80 \<le> c) \<and>
             (if b = 0xED then c < 0xA0 else c < 0xC0) \<and>
             0x80 \<le> d \<and> d < 0xC0 \<and> utf8_bytes r
         | _ \<Rightarrow> False)
      else if b < 0xF5 then
        (case bs of
           c # d # e # r \<Rightarrow>
             (if b = 0xF0 then 0x90 \<le> c else 0x80 \<le> c) \<and>
             (if b = 0xF4 then c < 0x90 else c < 0xC0) \<and>
             0x80 \<le> d \<and> d < 0xC0 \<and> 0x80 \<le> e \<and> e < 0xC0 \<and> utf8_bytes r
         | _ \<Rightarrow> False)
      else False)"

definition utf8_text :: "string \<Rightarrow> bool" where
  "utf8_text s = utf8_bytes (map of_char s)"

definition pg_text_ok :: "pg \<Rightarrow> string \<Rightarrow> bool" where
  "pg_text_ok db s \<longleftrightarrow> CHR 0x00 \<notin> set s \<and> text_accepted db s"

text \<open>The errors of \<^verbatim>\<open>database/sql\<close> and of the driver that the statements can
  produce (the driver's messages quote the names of relations and constraints; the
  quotation marks are left out).\<close>

definition ErrNoRows :: error where
  "ErrNoRows = ErrorString ''sql: no rows in result set''"

definition pq_check_author :: error where
  "pq_check_author =
     ErrorString ''pq: new row for relation books violates check constraint books_author_check''"

definition pq_check_title :: error where
  "pq_check_title =
     ErrorString ''pq: new row for relation books violates check constraint books_title_check''"

definition pq_unique_id :: error where
  "pq_unique_id = ErrorString ''pq: duplicate key value violates unique constraint books_pkey''"

definition pq_invalid_text :: error where
  "pq_invalid_text = ErrorString ''pq: invalid byte sequence for encoding''"

definition pq_seq_max :: error where
  "pq_seq_max = ErrorString ''pq: nextval: reached maximum value of sequence books_id_seq''"

definition pq_bad_statement :: error where
  "pq_bad_statement = ErrorString ''pq: statement or arguments not of the books store''"

text \<open>A statement does not run when the context is done or the connection is down.\<close>

definition pg_refused :: "Context \<Rightarrow> pg \<Rightarrow> error option" where
  "pg_refused ctx db =
     (case ctx of
        Some e \<Rightarrow> Some e
      | None \<Rightarrow> (case conn db of Down e \<Rightarrow> Some e | _ \<Rightarrow> None))"

text \<open>
  \<^verbatim>\<open>INSERT INTO books (title, author) VALUES ($1, $2) RETURNING id\<close>: the server
  first reads the two parameters as texts and rejects the statement when one of them is
  not a text it accepts; then the default
  of \<^verbatim>\<open>id\<close> takes the next value of the sequence, which fails once the sequence
  has passed its maximum and is not given back when the row is rejected; then the two
  check constraints (in the order of their names, \<^verbatim>\<open>books_author_check\<close> first)
  and the primary key decide whether the row is stored.
\<close>

definition pg_insert :: "string \<Rightarrow> string \<Rightarrow> pg \<Rightarrow> (error + int64) \<times> pg" where
  "pg_insert title author db =
     (if \<not> pg_text_ok db title \<or> \<not> pg_text_ok db author then (Inl pq_invalid_text, db)
      else if MaxInt64 < books_id_seq db then (Inl pq_seq_max, db)
      else
        let bid = books_id_seq db; db' = db\<lparr>books_id_seq := bid + 1\<rparr> in
        if author = [] then (Inl pq_check_author, db')
        else if title = [] then (Inl pq_check_title, db')
        else if bid \<in> set (map fst (books db)) then (Inl pq_unique_id, db')
        else (Inr bid, db'\<lparr>books := books db @ [(bid, title, author)]\<rparr>))"

text \<open>\<^verbatim>\<open>DELETE FROM books WHERE id = $1\<close>: removes the matching rows and reports
  how many there were.\<close>

definition pg_delete :: "int64 \<Rightarrow> pg \<Rightarrow> (error + nat) \<times> pg" where
  "pg_delete bid db =
     (Inr (length (filter (\<lambda>r. fst r = bid) (books db))),
      db\<lparr>books := filter (\<lambda>r. fst r \<noteq> bid) (books db)\<rparr>)"

text \<open>\<^verbatim>\<open>SELECT id, title, author FROM books WHERE id = $1\<close>, read with
  \<^verbatim>\<open>QueryRowxContext(...).Scan\<close>: the first matching row, or
  \<^verbatim>\<open>sql.ErrNoRows\<close> when there is none.\<close>

definition pg_select_by_id :: "int64 \<Rightarrow> pg \<Rightarrow> (error + scanned) \<times> pg" where
  "pg_select_by_id bid db =
     (case find (\<lambda>r. fst r = bid) (books db) of
        None \<Rightarrow> (Inl ErrNoRows, db)
      | Some r \<Rightarrow> (Inr r, db))"

text \<open>\<^verbatim>\<open>SELECT id, title, author FROM books ORDER BY id ASC\<close>: the rows sorted
  by identifier. The columns have the types of the scan destinations, so every scan
  succeeds. When the connection drops after \<open>n\<close> rows and there are more, the result
  set ends there and keeps the error; when it drops before the first of them, the query
  itself returns the error.\<close>

definition pg_select_all :: "pg \<Rightarrow> (error + Rows) \<times> pg" where
  "pg_select_all db =
     (let sorted_rows = sort_key fst (books db) in
      case conn db of
        DropsAfter n e \<Rightarrow>
          if n < length sorted_rows
          then
            if n = 0 then (Inl e, db)
            else (Inr \<lparr>delivered = map Inr (take n sorted_rows), rows_Err = Some e\<rparr>, db)
          else (Inr \<lparr>delivered = map Inr sorted_rows, rows_Err = None\<rparr>, db)
      | _ \<Rightarrow> (Inr \<lparr>delivered = map Inr sorted_rows, rows_Err = None\<rparr>, db))"

text \<open>The four methods of the handle. Each runs the one statement that the store
  sends through it.\<close>

definition pg_GetContext ::
  "Context \<Rightarrow> string \<Rightarrow> sqlval list \<Rightarrow> pg \<Rightarrow> (error + int64) \<times> pg" where
  "pg_GetContext ctx q args db =
     (case pg_refused ctx db of
        Some e \<Rightarrow> (Inl e, db)
      | None \<Rightarrow>
          (case args of
             [SqlText title, SqlText author] \<Rightarrow>
               if q = q_CreateBook then pg_insert title author db
               else (Inl pq_bad_statement, db)
           | _ \<Rightarrow> (Inl pq_bad_statement, db)))"

definition pg_ExecContext ::
  "Context \<Rightarrow> string \<Rightarrow> sqlval list \<Rightarrow> pg \<Rightarrow> (error + nat) \<times> pg" where
  "pg_ExecContext ctx q args db =
     (case pg_refused ctx db of
        Some e \<Rightarrow> (Inl e, db)
      | None \<Rightarrow>
          (case args of
             [SqlInt bid] \<Rightarrow>
               if q = q_DeleteBook then pg_delete bid db else (Inl pq_bad_statement, db)
           | _ \<Rightarrow> (Inl pq_bad_statement, db)))"

definition pg_QueryRowxContext_Scan ::
  "Context \<Rightarrow> string \<Rightarrow> sqlval list \<Rightarrow> pg \<Rightarrow> (error + scanned) \<times> pg" where
  "pg_QueryRowxContext_Scan ctx q args db =
     (case pg_refused ctx db of
        Some e \<Rightarrow> (Inl e, db)
      | None \<Rightarrow>
          (case args of
             [SqlInt bid] \<Rightarrow>
               if q = q_GetBookByID then pg_select_by_id bid db
               else (Inl pq_bad_statement, db)
           | _ \<Rightarrow> (Inl pq_bad_statement, db)))"

definition pg_QueryxContext ::
  "Context \<Rightarrow> string \<Rightarrow> sqlval list \<Rightarrow> pg \<Rightarrow> (error + Rows) \<times> pg" where
  "pg_QueryxContext ctx q args db =
     (case pg_refused ctx db of
        Some e \<Rightarrow> (Inl e, db)
      | None \<Rightarrow>
          (case args of
             [] \<Rightarrow> if q = q_GetBooks then pg_select_all db else (Inl pq_bad_statement, db)
           | _ \<Rightarrow> (Inl pq_bad_statement, db)))"

definition pg_DB :: "pg sqlx_DB" where
  "pg_DB =
     \<lparr>GetContext = pg_GetContext, ExecContext = pg_ExecContext,
      QueryRowxContext_Scan = pg_QueryRowxContext_Scan, QueryxContext = pg_QueryxContext\<rparr>"

text \<open>The store and the service of the application, wired to this handle.\<close>

definition pg_store :: "pg LibraryStore" where
  "pg_store = \<lparr>DB = pg_DB\<rparr>"

definition pg_service :: "pg LibraryService" where
  "pg_service = \<lparr>Store = store_iface pg_store\<rparr>"

text \<open>The service of the service tests, wired to the mock, and the behaviour function
  that \<^verbatim>\<open>TestLibraryService_AddBook\<close> installs.\<close>

definition mock_service :: "mockStore LibraryService" where
  "mock_service = \<lparr>Store = mock_iface\<rparr>"

definition test_CreateBookFn ::
  "Context \<Rightarrow> string \<Rightarrow> string \<Rightarrow> Book option \<times> error option" where
  "test_CreateBookFn ctx title author =
     (Some \<lparr>ID = 123, Title = title, Author = author\<rparr>, None)"

text \<open>The book that a scan of a row into \<^verbatim>\<open>&book.ID, &book.Title, &book.Author\<close>
  leaves in \<^verbatim>\<open>book\<close>.\<close>

definition book_of :: "scanned \<Rightarrow> Book" where
  "book_of r = (case r of (i, t, a) \<Rightarrow> \<lparr>ID = i, Title = t, Author = a\<rparr>)"

text \<open>
  Rows that came from the sequence lie below its next value, and rows inserted one after
  the other are stored in ascending order of identifier. The predicate is used to follow
  the table through a series of inserts.
\<close>

definition pg_inv :: "pg \<Rightarrow> bool" where
  "pg_inv db \<longleftrightarrow>
     sorted_wrt (<) (map fst (books db)) \<and> list_all (\<lambda>r. fst r < books_id_seq db) (books db)"

text \<open>The database right after the migration (encoding \<^verbatim>\<open>UTF8\<close>), the parameters
  of \<^verbatim>\<open>TestLibraryStore_GetBooks\<close>, a database of two books whose connection
  drops after the first row of a result set, and a database whose three rows are not
  stored in the order of their identifiers.\<close>

definition fresh_db :: pg where
  "fresh_db = \<lparr>books = [], books_id_seq = 1, conn = Up, text_accepted = utf8_text\<rparr>"

definition test_params :: "string list list" where
  "test_params =
     [[''Norse Mythology'', ''Neil Gaiman''],
      [''The Divine Comedy'', ''Dante Alighieri''],
      [''2001: A Space Odyssey'', ''Arthur C. Clarke'']]"

definition dropping_db :: pg where
  "dropping_db =
     \<lparr>books = [(1, ''Norse Mythology'', ''Neil Gaiman''),
               (2, ''The Divine Comedy'', ''Dante Alighieri'')],
      books_id_seq = 3,
      conn = DropsAfter 1 (ErrorString ''driver: bad connection''),
      text_accepted = utf8_text\<rparr>"

definition shuffled_db :: pg where
  "shuffled_db =
     \<lparr>books = [(2, ''The Divine Comedy'', ''Dante Alighieri''),
               (3, ''2001: A Space Odyssey'', ''Arthur C. Clarke''),
               (1, ''Norse Mythology'', ''Neil Gaiman'')],
      books_id_seq = 4, conn = Up, text_accepted = utf8_text\<rparr>"


section \<open>Properties\<close>

subsection \<open>Errors built with the wrapping verb\<close>

text \<open>
  A wrapping error matches a target when it is the target or its cause matches; its
  cause is the wrapped error; its message is the prefix followed by the message of the
  cause.
\<close>

lemma Is_Errorf_w: "Is (Errorf_w p e) t \<longleftrightarrow> Errorf_w p e = t \<or> Is e t"
  by (simp add: Errorf_w_def)

lemma Unwrap_Errorf_w: "Unwrap (Errorf_w p e) = Some e"
  by (simp add: Errorf_w_def)

lemma Error_Errorf_w: "Error (Errorf_w p e) = p @ Error e"
  by (simp add: Errorf_w_def)

lemma Is_same: "Is e e"
  by (cases e) simp_all

lemma ErrNoRows_is_leaf: "Errorf_w p e \<noteq> ErrNoRows"
  by (simp add: Errorf_w_def ErrNoRows_def)

subsection \<open>The store on the books table\<close>

text \<open>
  What each method of the store does when the handle is the books table: the statement
  is refused, or it runs as described for the table.
\<close>

lemma pg_CreateBook:
  "store_CreateBook pg_store ctx t a db =
     (case pg_refused ctx db of
        Some e \<Rightarrow> ((None, Some (Errorf_w ''create book: '' e)), db)
      | None \<Rightarrow>
          (case pg_insert t a db of
             (Inl e, db') \<Rightarrow> ((None, Some (Errorf_w ''create book: '' e)), db')
           | (Inr i, db') \<Rightarrow> ((Some \<lparr>ID = i, Title = t, Author = a\<rparr>, None), db')))"
  by (simp add: store_CreateBook_def pg_store_def pg_DB_def pg_GetContext_def
      split: option.splits)

lemma pg_DeleteBook:
  "store_DeleteBook pg_store ctx bid db =
     (case pg_refused ctx db of
        Some e \<Rightarrow> (Some (Errorf_w ''delete book: '' e), db)
      | None \<Rightarrow> (None, db\<lparr>books := filter (\<lambda>r. fst r \<noteq> bid) (books db)\<rparr>))"
  by (simp add: store_DeleteBook_def pg_store_def pg_DB_def pg_ExecContext_def pg_delete_def
      split: option.splits)

lemma pg_GetBookByID:
  "store_GetBookByID pg_store ctx bid db =
     (case pg_refused ctx db of
        Some e \<Rightarrow> ((None, Some (Errorf_w ''get book by id: '' e)), db)
      | None \<Rightarrow>
          (case find (\<lambda>r. fst r = bid) (books db) of
             None \<Rightarrow> ((None, Some (Errorf_w ''get book by id: '' ErrNoRows)), db)
           | Some r \<Rightarrow> ((Some (book_of r), None), db)))"
  by (simp add: store_GetBookByID_def pg_store_def pg_DB_def pg_QueryRowxContext_Scan_def
      pg_select_by_id_def book_of_def split: option.splits prod.splits)

lemma scan_books_all_ok: "scan_books (map Inr rs) acc = (Some (acc @ map book_of rs), None)"
  by (induction rs arbitrary: acc) (auto simp: book_of_def)

lemma scan_books_success: "scan_books rs acc = (r, None) \<Longrightarrow> r \<noteq> None"
  by (induction rs acc rule: scan_books.induct) auto

lemma scan_books_first_error:
  "scan_books (map Inr ok @ Inl err # rest) acc = (None, Some (Errorf_w ''get books: '' err))"
  by (induction ok arbitrary: acc) auto

lemma pg_GetBooks:
  "store_GetBooks pg_store ctx db =
     (case pg_refused ctx db of
        Some e \<Rightarrow> ((None, Some (Errorf_w ''get books: '' e)), db)
      | None \<Rightarrow>
          (case conn db of
             DropsAfter n e \<Rightarrow>
               if n = 0 \<and> books db \<noteq> []
               then ((None, Some (Errorf_w ''get books: '' e)), db)
               else ((Some (map book_of (take n (sort_key fst (books db)))), None), db)
           | _ \<Rightarrow> ((Some (map book_of (sort_key fst (books db))), None), db)))"
  by (auto simp: store_GetBooks_def pg_store_def pg_DB_def pg_QueryxContext_def
      pg_select_all_def scan_books_all_ok Let_def split: option.splits conn_state.splits)

lemma pg_insert_Inr:
  "pg_insert t a db = (Inr i, db') \<Longrightarrow>
     i = books_id_seq db \<and> i \<le> MaxInt64 \<and> t \<noteq> [] \<and> a \<noteq> [] \<and> i \<notin> fst ` set (books db) \<and>
     db' = db\<lparr>books_id_seq := i + 1, books := books db @ [(i, t, a)]\<rparr>"
  by (auto simp: pg_insert_def Let_def split: if_splits)

lemma pg_refused_conn: "conn db' = conn db \<Longrightarrow> pg_refused ctx db' = pg_refused ctx db"
  by (cases ctx) (simp_all add: pg_refused_def)

lemma pg_inv_insert: "pg_inv db \<Longrightarrow> pg_insert t a db = (Inr i, db') \<Longrightarrow> pg_inv db'"
  apply (drule pg_insert_Inr)
  apply (auto simp: pg_inv_def sorted_wrt_append list_all_iff)
  done

lemma find_unique_last:
  "i \<notin> fst ` set xs \<Longrightarrow> find (\<lambda>r. fst r = i) (xs @ [(i, t, a)]) = Some (i, t, a)"
  by (induction xs) auto

text \<open>
  A successful run of \<open>createManyBooks\<close> appends one row for every parameter, in the
  order of the parameters, and returns the identifiers of these rows.
\<close>

lemma createManyBooks_pg:
  "pg_inv db \<Longrightarrow>
   createManyBooks pg_store ctx ps ids0 db = (Returns (Some ids) None, db') \<Longrightarrow>
     pg_inv db' \<and> conn db' = conn db \<and> list_all (\<lambda>p. 2 \<le> length p) ps \<and>
     (\<exists>new. ids = ids0 @ new \<and> length new = length ps \<and>
        books db' = books db @ map2 (\<lambda>i p. (i, p ! 0, p ! 1)) new ps)"
proof (induction ps arbitrary: ids0 db)
  case Nil
  then show ?case by simp
next
  case (Cons p ps)
  from Cons.prems(2) obtain t a rest where p: "p = t # a # rest"
    by (cases p; cases "tl p") auto
  from Cons.prems(2) p obtain i db1 where
    ins: "pg_insert t a db = (Inr i, db1)" and ref: "pg_refused ctx db = None"
    and rec: "createManyBooks pg_store ctx ps (ids0 @ [i]) db1 = (Returns (Some ids) None, db')"
    by (auto simp: pg_CreateBook split: option.splits sum.splits prod.splits)
  have inv1: "pg_inv db1" using Cons.prems(1) ins by (rule pg_inv_insert)
  from pg_insert_Inr [OF ins] have db1: "books db1 = books db @ [(i, t, a)]" "conn db1 = conn db"
    by simp_all
  from Cons.IH [OF inv1 rec] obtain new where
    "pg_inv db'" "conn db' = conn db1" "list_all (\<lambda>p. 2 \<le> length p) ps"
    "ids = (ids0 @ [i]) @ new" "length new = length ps"
    "books db' = books db1 @ map2 (\<lambda>i p. (i, p ! 0, p ! 1)) new ps"
    by blast
  then show ?case
    using db1 p by (auto intro!: exI [where x = "i # new"])
qed

text \<open>
  No method of the store lowers the sequence, so a sequence that starts at 1 stays at
  least 1; every method keeps \<open>pg_inv\<close>; and on a table that satisfies it
  \<open>GetBooks\<close> returns the books in storage order, which is then the order of
  insertion.
\<close>

lemma pg_sequence_never_falls:
  "books_id_seq db \<le> books_id_seq (snd (store_CreateBook pg_store ctx t a db))
   \<and> books_id_seq (snd (store_DeleteBook pg_store ctx bid db)) = books_id_seq db
   \<and> books_id_seq (snd (store_GetBookByID pg_store ctx bid db)) = books_id_seq db
   \<and> books_id_seq (snd (store_GetBooks pg_store ctx db)) = books_id_seq db"
  by (auto simp: pg_CreateBook pg_DeleteBook pg_GetBookByID pg_GetBooks pg_insert_def Let_def
      split: option.splits conn_state.splits)

lemma pg_inv_kept:
  "pg_inv db \<Longrightarrow>
     pg_inv (snd (store_CreateBook pg_store ctx t a db))
     \<and> pg_inv (snd (store_DeleteBook pg_store ctx bid db))
     \<and> pg_inv (snd (store_GetBookByID pg_store ctx bid db))
     \<and> pg_inv (snd (store_GetBooks pg_store ctx db))"
  by (auto simp: pg_CreateBook pg_DeleteBook pg_GetBookByID pg_GetBooks pg_insert_def Let_def
      pg_inv_def sorted_wrt_append list_all_iff sorted_wrt_filter sorted_wrt_map
      split: option.splits conn_state.splits)

lemma pg_GetBooks_insertion_order:
  assumes "pg_inv db" and "pg_refused ctx db = None" and "conn db = Up"
  shows "store_GetBooks pg_store ctx db = ((Some (map book_of (books db)), None), db)"
proof -
  from assms(1) have "sorted (map fst (books db))"
    by (simp add: pg_inv_def strict_sorted_imp_sorted)
  then have "sort_key fst (books db) = books db"
    by (rule sort_key_id_if_sorted)
  then show ?thesis using assms(2,3) by (simp add: pg_GetBooks)
qed

subsection \<open>The service on a store\<close>

lemma service_AddBook_valid:
  "AddBook_Title req \<noteq> [] \<Longrightarrow> AddBook_Author req \<noteq> [] \<Longrightarrow>
     service_AddBook ls ctx req st =
       (case CreateBook (Store ls) ctx (AddBook_Title req) (AddBook_Author req) st of
           ((_, Some err), st') \<Rightarrow> (Returns None (Some (Errorf_w ''add book: '' err)), st')
         | ((None, None), st') \<Rightarrow> (Panics, st')
         | ((Some book, None), st') \<Rightarrow>
             (Returns (Some \<lparr>AddBook_Book = Some book\<rparr>) None, st'))"
  by (simp add: service_AddBook_def)


lemma pg_service_CreateBook [simp]:
  "CreateBook (Store pg_service) = store_CreateBook pg_store"
  by (simp add: pg_service_def store_iface_def)

lemma pg_service_GetBookByID [simp]:
  "GetBookByID (Store pg_service) = store_GetBookByID pg_store"
  by (simp add: pg_service_def store_iface_def)

lemma pg_service_GetBooks [simp]:
  "GetBooks (Store pg_service) = store_GetBooks pg_store"
  by (simp add: pg_service_def store_iface_def)

subsection \<open>Adding a book\<close>

text \<open>
  Claim C1. When the title or the author of the request is the empty string,
  \<open>AddBook\<close> returns its own validation error (a plain error without a cause: the one
  about the title when the title is blank, otherwise the one about the author), whatever
  store the service is wired to, and leaves the state of the store as it was: the store
  is not called. For the mock of the tests the log of \<open>CreateBook\<close> calls therefore
  keeps its entries, and the log changes only when both fields are non-empty.
\<close>

theorem AddBook_blank_field_rejected:
  "(AddBook_Title req = [] \<or> AddBook_Author req = [] \<longrightarrow>
      service_AddBook ls ctx req st =
        (Returns None (Some (ErrorString
           (if AddBook_Title req = [] then ''add book: title can't be blank''
            else ''add book: author can't be blank''))), st))
   \<and> (AddBook_Title req = [] \<or> AddBook_Author req = [] \<longrightarrow>
      CreateBookCalledWith (snd (service_AddBook mock_service ctx req ms))
        = CreateBookCalledWith ms)
   \<and> (CreateBookCalledWith (snd (service_AddBook mock_service ctx req ms))
        \<noteq> CreateBookCalledWith ms \<longrightarrow>
      AddBook_Title req \<noteq> [] \<and> AddBook_Author req \<noteq> [])"
  by (auto simp: service_AddBook_def)

theorem AddBook_blank_field_rejected_witness:
  "service_AddBook mock_service None \<lparr>AddBook_Title = [], AddBook_Author = ''Frank Herbert''\<rparr>
      \<lparr>CreateBookCalledWith = [], CreateBookFn = Some test_CreateBookFn\<rparr>
    = (Returns None (Some (ErrorString ''add book: title can't be blank'')),
       \<lparr>CreateBookCalledWith = [], CreateBookFn = Some test_CreateBookFn\<rparr>)"
  using AddBook_blank_field_rejected
    [of "\<lparr>AddBook_Title = [], AddBook_Author = ''Frank Herbert''\<rparr>" mock_service None
        "\<lparr>CreateBookCalledWith = [], CreateBookFn = Some test_CreateBookFn\<rparr>"]
  by simp

text \<open>
  On the books table the insert succeeds when the statement runs, both texts are
  accepted by the server and the sequence has a value left that no row carries; the
  identifier is then the value of the sequence.
\<close>

lemma pg_CreateBook_succeeds:
  assumes "t \<noteq> []" and "a \<noteq> []" and "pg_text_ok db t" and "pg_text_ok db a"
    and "pg_refused ctx db = None" and "books_id_seq db \<le> MaxInt64"
    and "books_id_seq db \<notin> fst ` set (books db)"
  shows "store_CreateBook pg_store ctx t a db =
           ((Some \<lparr>ID = books_id_seq db, Title = t, Author = a\<rparr>, None),
            db\<lparr>books_id_seq := books_id_seq db + 1,
               books := books db @ [(books_id_seq db, t, a)]\<rparr>)"
  using assms by (simp add: pg_CreateBook pg_insert_def Let_def)




subsection \<open>Reading books back\<close>

text \<open>
  Claim C3. After \<open>AddBook\<close> has succeeded on the books table, the response holds a
  book with the title and the author of the request, and \<open>GetBookByID\<close> of the store
  and \<open>GetBook\<close> of the service, called next with the identifier of that book and a
  live context, return this very book: identifier, title and author are the same. With
  the connection up, \<open>GetBooks\<close> returns a list that contains it.
\<close>

theorem round_trip:
  assumes "service_AddBook pg_service ctx req db = (Returns (Some resp) None, db')"
  shows "\<exists>b. AddBook_Book resp = Some b
           \<and> Title b = AddBook_Title req \<and> Author b = AddBook_Author req
           \<and> store_GetBookByID pg_store None (ID b) db' = ((Some b, None), db')
           \<and> service_GetBook pg_service None \<lparr>GetBook_ID = ID b\<rparr> db' =
               ((Some \<lparr>GetBook_Book = Some b\<rparr>, None), db')
           \<and> (conn db = Up \<longrightarrow>
                (\<exists>bs. store_GetBooks pg_store None db' = ((Some bs, None), db') \<and> b \<in> set bs))"
proof -
  let ?t = "AddBook_Title req" and ?a = "AddBook_Author req"
  from assms have valid: "?t \<noteq> []" "?a \<noteq> []"
    by (auto simp: service_AddBook_def split: if_splits)
  from assms valid obtain i where ref: "pg_refused ctx db = None"
    and ins: "pg_insert ?t ?a db = (Inr i, db')"
    and resp: "resp = \<lparr>AddBook_Book = Some \<lparr>ID = i, Title = ?t, Author = ?a\<rparr>\<rparr>"
    by (auto simp: service_AddBook_valid pg_CreateBook split: option.splits sum.splits prod.splits)
  let ?b = "\<lparr>ID = i, Title = ?t, Author = ?a\<rparr>"
  from pg_insert_Inr [OF ins] have fresh: "i \<notin> fst ` set (books db)"
    and bs: "books db' = books db @ [(i, ?t, ?a)]" and cn: "conn db' = conn db"
    by auto
  from ref have nd: "pg_refused None db' = None"
    by (cases "conn db") (auto simp: pg_refused_def cn split: option.splits)
  have fnd: "find (\<lambda>r. fst r = i) (books db') = Some (i, ?t, ?a)"
    unfolding bs using fresh by (rule find_unique_last)
  have st: "store_GetBookByID pg_store None (ID ?b) db' = ((Some ?b, None), db')"
    by (simp add: pg_GetBookByID nd fnd book_of_def)
  have sv: "service_GetBook pg_service None \<lparr>GetBook_ID = ID ?b\<rparr> db' =
      ((Some \<lparr>GetBook_Book = Some ?b\<rparr>, None), db')"
    using st by (simp add: service_GetBook_def)
  have all: "conn db = Up \<longrightarrow>
      (\<exists>bs. store_GetBooks pg_store None db' = ((Some bs, None), db') \<and> ?b \<in> set bs)"
  proof
    assume up: "conn db = Up"
    have "?b = book_of (i, ?t, ?a)" by (simp add: book_of_def)
    moreover have "(i, ?t, ?a) \<in> set (sort_key fst (books db'))" by (simp add: bs)
    ultimately have "?b \<in> set (map book_of (sort_key fst (books db')))"
      by (metis imageI set_map)
    then show "\<exists>bs. store_GetBooks pg_store None db' = ((Some bs, None), db') \<and> ?b \<in> set bs"
      by (simp add: pg_GetBooks nd cn up)
  qed
  show ?thesis
    using resp st sv all by (intro exI [where x = ?b]) simp
qed

theorem round_trip_witness:
  "service_AddBook pg_service None \<lparr>AddBook_Title = ''Dune'', AddBook_Author = ''Frank Herbert''\<rparr> fresh_db
     = (Returns (Some \<lparr>AddBook_Book = Some \<lparr>ID = 1, Title = ''Dune'', Author = ''Frank Herbert''\<rparr>\<rparr>) None,
        \<lparr>books = [(1, ''Dune'', ''Frank Herbert'')], books_id_seq = 2, conn = Up, text_accepted = utf8_text\<rparr>)
   \<and> service_GetBook pg_service None \<lparr>GetBook_ID = 1\<rparr>
        \<lparr>books = [(1, ''Dune'', ''Frank Herbert'')], books_id_seq = 2, conn = Up, text_accepted = utf8_text\<rparr>
     = ((Some \<lparr>GetBook_Book = Some \<lparr>ID = 1, Title = ''Dune'', Author = ''Frank Herbert''\<rparr>\<rparr>, None),
        \<lparr>books = [(1, ''Dune'', ''Frank Herbert'')], books_id_seq = 2, conn = Up, text_accepted = utf8_text\<rparr>)"
proof -
  let ?req = "\<lparr>AddBook_Title = ''Dune'', AddBook_Author = ''Frank Herbert''\<rparr>"
  let ?b = "\<lparr>ID = 1, Title = ''Dune'', Author = ''Frank Herbert''\<rparr>"
  let ?db' = "\<lparr>books = [(1, ''Dune'', ''Frank Herbert'')], books_id_seq = 2, conn = Up, text_accepted = utf8_text\<rparr>"
  have ok: "service_AddBook pg_service None ?req fresh_db =
      (Returns (Some \<lparr>AddBook_Book = Some ?b\<rparr>) None, ?db')"
    by (simp add: service_AddBook_def pg_CreateBook pg_refused_def pg_insert_def Let_def
        fresh_db_def MaxInt64_def pg_text_ok_def utf8_text_def)
  from round_trip [OF ok] have
    "service_GetBook pg_service None \<lparr>GetBook_ID = 1\<rparr> ?db' =
       ((Some \<lparr>GetBook_Book = Some ?b\<rparr>, None), ?db')"
    by simp
  with ok show ?thesis by simp
qed

text \<open>
  Claim C4. For every state of the books table, when the statement runs and the
  connection stays up, \<open>GetBooks\<close> of the store (and of the service) returns the rows
  of the table sorted by identifier: as many books as the table has rows, in ascending
  order of \<open>ID\<close> (strictly ascending when the identifiers are distinct, as the primary
  key makes them), and the same books as the rows, each with the title and the author of
  its row. Ascending order is the order of insertion: starting from an empty table, after
  \<open>createManyBooks\<close> has inserted the \<open>N\<close> parameters in their order and returned their
  identifiers, \<open>GetBooks\<close> returns exactly \<open>N\<close> books, the \<open>k\<close>-th with the \<open>k\<close>-th
  identifier and the title and author of the \<open>k\<close>-th parameter, and the identifiers are
  strictly ascending.
\<close>

theorem GetBooks_ascending_insertion_order:
  "(pg_refused ctx0 db0 = None \<longrightarrow> conn db0 = Up \<longrightarrow>
      (\<exists>bs. store_GetBooks pg_store ctx0 db0 = ((Some bs, None), db0)
         \<and> service_GetBooks pg_service ctx0 () db0 =
             ((Some \<lparr>GetBooks_Books = Some bs\<rparr>, None), db0)
         \<and> bs = map book_of (sort_key fst (books db0))
         \<and> length bs = length (books db0)
         \<and> sorted (map ID bs)
         \<and> (distinct (map fst (books db0)) \<longrightarrow> sorted_wrt (<) (map ID bs))
         \<and> mset bs = mset (map book_of (books db0))))
   \<and> (books db = [] \<longrightarrow> conn db = Up \<longrightarrow>
      createManyBooks pg_store ctx params [] db = (Returns (Some ids) None, db') \<longrightarrow>
        store_GetBooks pg_store None db' =
           ((Some (map2 (\<lambda>i p. \<lparr>ID = i, Title = p ! 0, Author = p ! 1\<rparr>) ids params), None), db')
         \<and> service_GetBooks pg_service None () db' =
           ((Some \<lparr>GetBooks_Books =
               Some (map2 (\<lambda>i p. \<lparr>ID = i, Title = p ! 0, Author = p ! 1\<rparr>) ids params)\<rparr>, None), db')
         \<and> length ids = length params \<and> sorted_wrt (<) ids
         \<and> (\<forall>p \<in> set params. 2 \<le> length p))"
proof (intro conjI impI)
  assume run: "pg_refused ctx0 db0 = None" and up0: "conn db0 = Up"
  let ?bs = "map book_of (sort_key fst (books db0))"
  have ids: "map ID ?bs = map fst (sort_key fst (books db0))"
    by (simp add: book_of_def split_def)
  have st: "store_GetBooks pg_store ctx0 db0 = ((Some ?bs, None), db0)"
    by (simp add: pg_GetBooks run up0)
  have sv: "service_GetBooks pg_service ctx0 () db0 =
      ((Some \<lparr>GetBooks_Books = Some ?bs\<rparr>, None), db0)"
    by (simp add: service_GetBooks_def st)
  have srt0: "sorted (map fst (sort_key fst (books db0)))"
    by (rule sorted_sort_key)
  have srt: "sorted (map ID ?bs)"
    by (simp only: ids srt0)
  have strict: "sorted_wrt (<) (map ID ?bs)" if d: "distinct (map fst (books db0))"
  proof -
    have "mset (map fst (sort_key fst (books db0))) = mset (map fst (books db0))"
      by simp
    from mset_eq_imp_distinct_iff [OF this] d
    have "distinct (map fst (sort_key fst (books db0)))"
      by blast
    with srt0 have "sorted_wrt (<) (map fst (sort_key fst (books db0)))"
      by (simp only: strict_sorted_iff)
    then show ?thesis by (simp only: ids)
  qed
  have ms: "mset ?bs = mset (map book_of (books db0))"
    by simp
  show "\<exists>bs. store_GetBooks pg_store ctx0 db0 = ((Some bs, None), db0)
         \<and> service_GetBooks pg_service ctx0 () db0 =
             ((Some \<lparr>GetBooks_Books = Some bs\<rparr>, None), db0)
         \<and> bs = map book_of (sort_key fst (books db0))
         \<and> length bs = length (books db0)
         \<and> sorted (map ID bs)
         \<and> (distinct (map fst (books db0)) \<longrightarrow> sorted_wrt (<) (map ID bs))
         \<and> mset bs = mset (map book_of (books db0))"
    using st sv srt strict ms by (intro exI [where x = ?bs]) simp
next
  assume e: "books db = []" and u: "conn db = Up"
    and c: "createManyBooks pg_store ctx params [] db = (Returns (Some ids) None, db')"
  have inv: "pg_inv db" using e by (simp add: pg_inv_def)
  from createManyBooks_pg [OF inv c] e u
  have inv': "pg_inv db'" and up: "conn db' = Up" and len2: "list_all (\<lambda>p. 2 \<le> length p) params"
    and len: "length ids = length params"
    and bs: "books db' = map2 (\<lambda>i p. (i, p ! 0, p ! 1)) ids params"
    by auto
  have idl: "map fst (books db') = ids"
    using len unfolding bs by (induction ids params rule: list_induct2) auto
  have asc: "sorted_wrt (<) ids" using inv' idl by (simp add: pg_inv_def)
  have bk: "map book_of (books db') =
      map2 (\<lambda>i p. \<lparr>ID = i, Title = p ! 0, Author = p ! 1\<rparr>) ids params"
    using len unfolding bs by (induction ids params rule: list_induct2) (auto simp: book_of_def)
  have "pg_refused None db' = None" using up by (simp add: pg_refused_def)
  from pg_GetBooks_insertion_order [OF inv' this up]
  show st: "store_GetBooks pg_store None db' =
      ((Some (map2 (\<lambda>i p. \<lparr>ID = i, Title = p ! 0, Author = p ! 1\<rparr>) ids params), None), db')"
    by (simp add: bk)
  show "service_GetBooks pg_service None () db' =
      ((Some \<lparr>GetBooks_Books =
          Some (map2 (\<lambda>i p. \<lparr>ID = i, Title = p ! 0, Author = p ! 1\<rparr>) ids params)\<rparr>, None), db')"
    by (simp add: service_GetBooks_def st)
  show "length ids = length params" by (rule len)
  show "sorted_wrt (<) ids" by (rule asc)
  show "\<forall>p \<in> set params. 2 \<le> length p" using len2 by (simp add: list_all_iff)
qed

theorem GetBooks_ascending_insertion_order_witness:
  "store_GetBooks pg_store None shuffled_db =
       ((Some [\<lparr>ID = 1, Title = ''Norse Mythology'', Author = ''Neil Gaiman''\<rparr>,
               \<lparr>ID = 2, Title = ''The Divine Comedy'', Author = ''Dante Alighieri''\<rparr>,
               \<lparr>ID = 3, Title = ''2001: A Space Odyssey'', Author = ''Arthur C. Clarke''\<rparr>], None),
        shuffled_db)
   \<and> books fresh_db = [] \<and> conn fresh_db = Up
   \<and> createManyBooks pg_store None test_params [] fresh_db =
       (Returns (Some [1, 2, 3]) None,
        \<lparr>books = [(1, ''Norse Mythology'', ''Neil Gaiman''),
                  (2, ''The Divine Comedy'', ''Dante Alighieri''),
                  (3, ''2001: A Space Odyssey'', ''Arthur C. Clarke'')],
         books_id_seq = 4, conn = Up, text_accepted = utf8_text\<rparr>)
   \<and> store_GetBooks pg_store None
        \<lparr>books = [(1, ''Norse Mythology'', ''Neil Gaiman''),
                  (2, ''The Divine Comedy'', ''Dante Alighieri''),
                  (3, ''2001: A Space Odyssey'', ''Arthur C. Clarke'')],
         books_id_seq = 4, conn = Up, text_accepted = utf8_text\<rparr> =
       ((Some [\<lparr>ID = 1, Title = ''Norse Mythology'', Author = ''Neil Gaiman''\<rparr>,
               \<lparr>ID = 2, Title = ''The Divine Comedy'', Author = ''Dante Alighieri''\<rparr>,
               \<lparr>ID = 3, Title = ''2001: A Space Odyssey'', Author = ''Arthur C. Clarke''\<rparr>], None),
        \<lparr>books = [(1, ''Norse Mythology'', ''Neil Gaiman''),
                  (2, ''The Divine Comedy'', ''Dante Alighieri''),
                  (3, ''2001: A Space Odyssey'', ''Arthur C. Clarke'')],
         books_id_seq = 4, conn = Up, text_accepted = utf8_text\<rparr>)"
proof -
  let ?db' = "\<lparr>books = [(1, ''Norse Mythology'', ''Neil Gaiman''),
                  (2, ''The Divine Comedy'', ''Dante Alighieri''),
                  (3, ''2001: A Space Odyssey'', ''Arthur C. Clarke'')],
         books_id_seq = 4, conn = Up, text_accepted = utf8_text\<rparr>"
  have r: "pg_refused None shuffled_db = None" and su: "conn shuffled_db = Up"
    by (simp_all add: shuffled_db_def pg_refused_def)
  have e: "books fresh_db = []" and u: "conn fresh_db = Up"
    by (simp_all add: fresh_db_def)
  have c: "createManyBooks pg_store None test_params [] fresh_db = (Returns (Some [1, 2, 3]) None, ?db')"
    by (simp add: test_params_def fresh_db_def pg_CreateBook pg_refused_def pg_insert_def
        Let_def MaxInt64_def pg_text_ok_def utf8_text_def)
  have srt: "sort_key fst (books shuffled_db) =
      [(1, ''Norse Mythology'', ''Neil Gaiman''), (2, ''The Divine Comedy'', ''Dante Alighieri''),
       (3, ''2001: A Space Odyssey'', ''Arthur C. Clarke'')]"
    by (simp add: shuffled_db_def)
  from GetBooks_ascending_insertion_order
    [of None shuffled_db fresh_db None test_params "[1, 2, 3]" ?db'] r su e u c
  have 1: "store_GetBooks pg_store None shuffled_db =
      ((Some (map book_of (sort_key fst (books shuffled_db))), None), shuffled_db)"
    and 2: "store_GetBooks pg_store None ?db' =
      ((Some (map2 (\<lambda>i p. \<lparr>ID = i, Title = p ! 0, Author = p ! 1\<rparr>) [1, 2, 3] test_params), None), ?db')"
    by auto
  show ?thesis
    using 1 2 e u c by (simp add: srt book_of_def test_params_def)
qed

text \<open>
  Claim C5. When no row of the table has the requested identifier and the statement
  runs, \<open>GetBookByID\<close> fails with an error that wraps \<^verbatim>\<open>sql.ErrNoRows\<close>, and
  \<open>GetBook\<close> of the service fails with an error that wraps that one: the no-rows
  error is found in both by \<open>Is\<close> and reached by \<open>Unwrap\<close>. When instead the
  statement is refused with an error that is not the no-rows error, neither returned
  error matches the no-rows error, so the two kinds of failure are told apart. When a
  row has the identifier, \<open>GetBook\<close> succeeds.
\<close>

theorem GetBook_unknown_id:
  "(bid \<notin> fst ` set (books db) \<longrightarrow> pg_refused ctx db = None \<longrightarrow>
      store_GetBookByID pg_store ctx bid db =
        ((None, Some (Errorf_w ''get book by id: '' ErrNoRows)), db)
      \<and> service_GetBook pg_service ctx \<lparr>GetBook_ID = bid\<rparr> db =
        ((None, Some (Errorf_w ''get book: '' (Errorf_w ''get book by id: '' ErrNoRows))), db)
      \<and> Is (Errorf_w ''get book by id: '' ErrNoRows) ErrNoRows
      \<and> Is (Errorf_w ''get book: '' (Errorf_w ''get book by id: '' ErrNoRows)) ErrNoRows
      \<and> Unwrap (Errorf_w ''get book: '' (Errorf_w ''get book by id: '' ErrNoRows))
          = Some (Errorf_w ''get book by id: '' ErrNoRows)
      \<and> Unwrap (Errorf_w ''get book by id: '' ErrNoRows) = Some ErrNoRows)
   \<and> (pg_refused ctx db = Some e \<longrightarrow> \<not> Is e ErrNoRows \<longrightarrow>
      (\<exists>e1 e2. store_GetBookByID pg_store ctx bid db = ((None, Some e1), db)
         \<and> service_GetBook pg_service ctx \<lparr>GetBook_ID = bid\<rparr> db = ((None, Some e2), db)
         \<and> \<not> Is e1 ErrNoRows \<and> \<not> Is e2 ErrNoRows))
   \<and> (find (\<lambda>r. fst r = bid) (books db) = Some r \<longrightarrow> pg_refused ctx db = None \<longrightarrow>
      service_GetBook pg_service ctx \<lparr>GetBook_ID = bid\<rparr> db =
        ((Some \<lparr>GetBook_Book = Some (book_of r)\<rparr>, None), db))"
proof (intro conjI impI)
  assume miss: "bid \<notin> fst ` set (books db)" and ok: "pg_refused ctx db = None"
  from miss have nf: "find (\<lambda>r. fst r = bid) (books db) = None"
    by (force simp: find_None_iff)
  show st: "store_GetBookByID pg_store ctx bid db =
      ((None, Some (Errorf_w ''get book by id: '' ErrNoRows)), db)"
    by (simp add: pg_GetBookByID ok nf)
  show "service_GetBook pg_service ctx \<lparr>GetBook_ID = bid\<rparr> db =
      ((None, Some (Errorf_w ''get book: '' (Errorf_w ''get book by id: '' ErrNoRows))), db)"
    by (simp add: service_GetBook_def st)
next
  show "Is (Errorf_w ''get book by id: '' ErrNoRows) ErrNoRows"
    by (simp add: Is_Errorf_w Is_same)
  show "Is (Errorf_w ''get book: '' (Errorf_w ''get book by id: '' ErrNoRows)) ErrNoRows"
    by (simp add: Is_Errorf_w Is_same)
  show "Unwrap (Errorf_w ''get book: '' (Errorf_w ''get book by id: '' ErrNoRows))
      = Some (Errorf_w ''get book by id: '' ErrNoRows)"
    by (rule Unwrap_Errorf_w)
  show "Unwrap (Errorf_w ''get book by id: '' ErrNoRows) = Some ErrNoRows"
    by (rule Unwrap_Errorf_w)
next
  assume ref: "pg_refused ctx db = Some e" and other: "\<not> Is e ErrNoRows"
  have st: "store_GetBookByID pg_store ctx bid db =
      ((None, Some (Errorf_w ''get book by id: '' e)), db)"
    by (simp add: pg_GetBookByID ref)
  have sv: "service_GetBook pg_service ctx \<lparr>GetBook_ID = bid\<rparr> db =
      ((None, Some (Errorf_w ''get book: '' (Errorf_w ''get book by id: '' e))), db)"
    by (simp add: service_GetBook_def st)
  show "\<exists>e1 e2. store_GetBookByID pg_store ctx bid db = ((None, Some e1), db)
         \<and> service_GetBook pg_service ctx \<lparr>GetBook_ID = bid\<rparr> db = ((None, Some e2), db)
         \<and> \<not> Is e1 ErrNoRows \<and> \<not> Is e2 ErrNoRows"
    using st sv other by (simp add: Is_Errorf_w ErrNoRows_is_leaf)
next
  assume "find (\<lambda>r. fst r = bid) (books db) = Some r" "pg_refused ctx db = None"
  then show "service_GetBook pg_service ctx \<lparr>GetBook_ID = bid\<rparr> db =
      ((Some \<lparr>GetBook_Book = Some (book_of r)\<rparr>, None), db)"
    by (simp add: service_GetBook_def pg_GetBookByID)
qed

theorem GetBook_unknown_id_witness:
  "service_GetBook pg_service None \<lparr>GetBook_ID = 42\<rparr> fresh_db =
     ((None, Some (WrapError ''get book: get book by id: sql: no rows in result set''
                    (WrapError ''get book by id: sql: no rows in result set''
                      (ErrorString ''sql: no rows in result set'')))), fresh_db)
   \<and> (\<exists>e2. service_GetBook pg_service (Some (ErrorString ''context canceled''))
              \<lparr>GetBook_ID = 42\<rparr> fresh_db = ((None, Some e2), fresh_db)
          \<and> \<not> Is e2 ErrNoRows)"
proof -
  have a: "42 \<notin> fst ` set (books fresh_db)" and b: "pg_refused None fresh_db = None"
    and c: "pg_refused (Some (ErrorString ''context canceled'')) fresh_db
            = Some (ErrorString ''context canceled'')"
    and d: "\<not> Is (ErrorString ''context canceled'') ErrNoRows"
    by (simp_all add: fresh_db_def pg_refused_def ErrNoRows_def)
  from GetBook_unknown_id [of 42 fresh_db None] a b
  have 1: "service_GetBook pg_service None \<lparr>GetBook_ID = 42\<rparr> fresh_db =
      ((None, Some (Errorf_w ''get book: '' (Errorf_w ''get book by id: '' ErrNoRows))), fresh_db)"
    by blast
  from GetBook_unknown_id [of 42 fresh_db "Some (ErrorString ''context canceled'')"
      "ErrorString ''context canceled''"] c d
  have 2: "\<exists>e2. service_GetBook pg_service (Some (ErrorString ''context canceled''))
              \<lparr>GetBook_ID = 42\<rparr> fresh_db = ((None, Some e2), fresh_db) \<and> \<not> Is e2 ErrNoRows"
    by blast
  from 1 2 show ?thesis by (simp add: Errorf_w_def ErrNoRows_def)
qed

subsection \<open>Deleting a book\<close>

text \<open>
  Claim C6. When the statement runs (live context, connection not down),
  \<open>DeleteBook\<close> returns no error for every identifier and removes the rows that have
  it; when no row has the identifier the table is left as it was, and a second deletion
  of the same identifier succeeds and changes nothing.
\<close>

theorem DeleteBook_missing_id_succeeds:
  assumes "pg_refused ctx db = None"
  shows "store_DeleteBook pg_store ctx bid db =
           (None, db\<lparr>books := filter (\<lambda>r. fst r \<noteq> bid) (books db)\<rparr>)
         \<and> (bid \<notin> fst ` set (books db) \<longrightarrow> store_DeleteBook pg_store ctx bid db = (None, db))
         \<and> store_DeleteBook pg_store ctx bid (snd (store_DeleteBook pg_store ctx bid db)) =
             (None, snd (store_DeleteBook pg_store ctx bid db))"
proof -
  let ?db' = "db\<lparr>books := filter (\<lambda>r. fst r \<noteq> bid) (books db)\<rparr>"
  have 1: "store_DeleteBook pg_store ctx bid db = (None, ?db')"
    using assms by (simp add: pg_DeleteBook)
  have 2: "store_DeleteBook pg_store ctx bid db = (None, db)" if "bid \<notin> fst ` set (books db)"
  proof -
    from that have "filter (\<lambda>r. fst r \<noteq> bid) (books db) = books db"
      by (auto simp: filter_id_conv)
    then show ?thesis using 1 by simp
  qed
  have "pg_refused ctx ?db' = None"
    using assms by (simp add: pg_refused_conn [of ?db' db])
  then have 3: "store_DeleteBook pg_store ctx bid ?db' = (None, ?db')"
    by (simp add: pg_DeleteBook)
  show ?thesis using 1 2 3 by simp
qed

theorem DeleteBook_missing_id_succeeds_witness:
  "pg_refused None fresh_db = None \<and> store_DeleteBook pg_store None 42 fresh_db = (None, fresh_db)"
proof -
  have a: "pg_refused None fresh_db = None" and b: "42 \<notin> fst ` set (books fresh_db)"
    by (simp_all add: fresh_db_def pg_refused_def)
  from DeleteBook_missing_id_succeeds [OF a, of 42] b a show ?thesis by blast
qed

subsection \<open>Listing books\<close>

text \<open>
  Claim C7. Whenever \<open>GetBooks\<close> of the store returns without an error, over any
  database handle, the slice it returns is not nil; on an empty books table it returns
  the empty slice, and so does the service.
\<close>

theorem GetBooks_empty_not_nil:
  "(store_GetBooks s ctx x = ((r, None), x') \<longrightarrow> r \<noteq> None)
   \<and> (books db = [] \<longrightarrow> pg_refused ctx' db = None \<longrightarrow>
        store_GetBooks pg_store ctx' db = ((Some [], None), db)
        \<and> service_GetBooks pg_service ctx' () db = ((Some \<lparr>GetBooks_Books = Some []\<rparr>, None), db))"
proof (intro conjI impI)
  assume "store_GetBooks s ctx x = ((r, None), x')"
  then show "r \<noteq> None"
    by (auto simp: store_GetBooks_def split: prod.splits sum.splits dest: scan_books_success)
next
  assume e: "books db = []" and ok: "pg_refused ctx' db = None"
  show st: "store_GetBooks pg_store ctx' db = ((Some [], None), db)"
    by (cases "conn db") (simp_all add: pg_GetBooks e ok)
  show "service_GetBooks pg_service ctx' () db = ((Some \<lparr>GetBooks_Books = Some []\<rparr>, None), db)"
    by (simp add: service_GetBooks_def st)
qed

theorem GetBooks_empty_not_nil_witness:
  "store_GetBooks pg_store None fresh_db = ((Some [], None), fresh_db)
   \<and> service_GetBooks pg_service None () fresh_db =
       ((Some \<lparr>GetBooks_Books = Some []\<rparr>, None), fresh_db)"
proof -
  have e: "books fresh_db = []" and ok: "pg_refused None fresh_db = None"
    by (simp_all add: fresh_db_def pg_refused_def)
  from GetBooks_empty_not_nil [of pg_store None fresh_db "Some []" fresh_db fresh_db None] e ok
  show ?thesis by blast
qed

subsection \<open>Propagation of errors\<close>

text \<open>
  Every call of the store into the database handle and every call of the service into
  the store that returns an error makes the operation return that error wrapped with the
  name of the operation; by \<open>Unwrap_Errorf_w\<close> the cause is recovered by unwrapping.
\<close>

lemma store_wraps_errors:
  "(GetContext (DB s) ctx q_CreateBook [SqlText t, SqlText a] x = (Inl err, x') \<longrightarrow>
      store_CreateBook s ctx t a x = ((None, Some (Errorf_w ''create book: '' err)), x'))
   \<and> (ExecContext (DB s) ctx q_DeleteBook [SqlInt bid] x = (Inl err, x') \<longrightarrow>
      store_DeleteBook s ctx bid x = (Some (Errorf_w ''delete book: '' err), x'))
   \<and> (QueryRowxContext_Scan (DB s) ctx q_GetBookByID [SqlInt bid] x = (Inl err, x') \<longrightarrow>
      store_GetBookByID s ctx bid x = ((None, Some (Errorf_w ''get book by id: '' err)), x'))
   \<and> (QueryxContext (DB s) ctx q_GetBooks [] x = (Inl err, x') \<longrightarrow>
      store_GetBooks s ctx x = ((None, Some (Errorf_w ''get books: '' err)), x'))
   \<and> (QueryxContext (DB s) ctx q_GetBooks [] x = (Inr rows, x') \<longrightarrow>
      delivered rows = map Inr ok @ Inl err # rest \<longrightarrow>
      store_GetBooks s ctx x = ((None, Some (Errorf_w ''get books: '' err)), x'))"
  by (simp add: store_CreateBook_def store_DeleteBook_def store_GetBookByID_def
      store_GetBooks_def scan_books_first_error)

lemma service_wraps_errors:
  "(AddBook_Title req \<noteq> [] \<longrightarrow> AddBook_Author req \<noteq> [] \<longrightarrow>
      CreateBook (Store ls) ctx (AddBook_Title req) (AddBook_Author req) st = ((bo, Some err), st') \<longrightarrow>
      service_AddBook ls ctx req st = (Returns None (Some (Errorf_w ''add book: '' err)), st'))
   \<and> (GetBookByID (Store ls) ctx (GetBook_ID greq) st = ((bo, Some err), st') \<longrightarrow>
      service_GetBook ls ctx greq st = ((None, Some (Errorf_w ''get book: '' err)), st'))
   \<and> (GetBooks (Store ls) ctx st = ((bs, Some err), st') \<longrightarrow>
      service_GetBooks ls ctx u st = ((None, Some (Errorf_w ''get books: '' err)), st'))"
  by (simp add: service_AddBook_def service_GetBook_def service_GetBooks_def
      split: option.splits)

text \<open>
  The result of \<open>GetBooks\<close> does not depend on the error that ended the iteration
  of the result set.
\<close>

lemma store_GetBooks_ignores_rows_Err:
  "QueryxContext (DB s) ctx q_GetBooks [] x = (Inr rows, x') \<Longrightarrow>
     store_GetBooks s ctx x = (scan_books (delivered rows) [], x')"
  by (simp add: store_GetBooks_def)

text \<open>
  Claim C8. The part of the claim that no operation swallows an error does not hold
  for \<open>GetBooks\<close>: on a table of two books whose connection drops after the first
  row, the handle delivers one row and keeps the error of the connection in the result
  set, and \<open>GetBooks\<close> of the store and of the service return the one book with a
  nil error.
\<close>

theorem GetBooks_swallows_iteration_error:
  "QueryxContext (DB pg_store) None q_GetBooks [] dropping_db =
     (Inr \<lparr>delivered = [Inr (1, ''Norse Mythology'', ''Neil Gaiman'')],
           rows_Err = Some (ErrorString ''driver: bad connection'')\<rparr>, dropping_db)
   \<and> store_GetBooks pg_store None dropping_db =
       ((Some [\<lparr>ID = 1, Title = ''Norse Mythology'', Author = ''Neil Gaiman''\<rparr>], None), dropping_db)
   \<and> service_GetBooks pg_service None () dropping_db =
       ((Some \<lparr>GetBooks_Books =
           Some [\<lparr>ID = 1, Title = ''Norse Mythology'', Author = ''Neil Gaiman''\<rparr>]\<rparr>, None), dropping_db)"
proof -
  have q: "QueryxContext (DB pg_store) None q_GetBooks [] dropping_db =
     (Inr \<lparr>delivered = [Inr (1, ''Norse Mythology'', ''Neil Gaiman'')],
           rows_Err = Some (ErrorString ''driver: bad connection'')\<rparr>, dropping_db)"
    by (simp add: pg_store_def pg_DB_def pg_QueryxContext_def pg_refused_def pg_select_all_def
        dropping_db_def)
  have st: "store_GetBooks pg_store None dropping_db =
       ((Some [\<lparr>ID = 1, Title = ''Norse Mythology'', Author = ''Neil Gaiman''\<rparr>], None), dropping_db)"
    by (simp add: store_GetBooks_ignores_rows_Err [OF q])
  show ?thesis using q st by (simp add: service_GetBooks_def)
qed

subsection \<open>The mock store\<close>

text \<open>
  Claim C9. When \<open>CreateBookFn\<close> is nil, \<open>CreateBook\<close> of the mock returns a nil book
  together with the error \<open>ErrMockNotImplemented\<close>; it returns normally and leaves the
  mock as it was. Through the service, a valid request then fails with that error
  wrapped by \<open>AddBook\<close>.
\<close>

theorem mock_CreateBook_not_implemented:
  assumes "CreateBookFn ms = None"
  shows "mockStore_CreateBook ctx title author ms = ((None, Some ErrMockNotImplemented), ms)
         \<and> (title \<noteq> [] \<longrightarrow> author \<noteq> [] \<longrightarrow>
              service_AddBook mock_service ctx \<lparr>AddBook_Title = title, AddBook_Author = author\<rparr> ms =
                (Returns None (Some (Errorf_w ''add book: '' ErrMockNotImplemented)), ms))"
  using assms
  by (simp add: mockStore_CreateBook_def service_AddBook_def mock_service_def mock_iface_def)

theorem mock_CreateBook_not_implemented_witness:
  "mockStore_CreateBook None ''Dune'' ''Frank Herbert''
      \<lparr>CreateBookCalledWith = [], CreateBookFn = None\<rparr>
    = ((None, Some (ErrorString ''mock not implemented'')),
       \<lparr>CreateBookCalledWith = [], CreateBookFn = None\<rparr>)
   \<and> service_AddBook mock_service None
        \<lparr>AddBook_Title = ''Dune'', AddBook_Author = ''Frank Herbert''\<rparr>
        \<lparr>CreateBookCalledWith = [], CreateBookFn = None\<rparr>
    = (Returns None (Some (WrapError ''add book: mock not implemented''
                            (ErrorString ''mock not implemented''))),
       \<lparr>CreateBookCalledWith = [], CreateBookFn = None\<rparr>)"
  using mock_CreateBook_not_implemented
    [of "\<lparr>CreateBookCalledWith = [], CreateBookFn = None\<rparr>" None "''Dune''" "''Frank Herbert''"]
  by (simp add: ErrMockNotImplemented_def Errorf_w_def)

text \<open>
  Claim C10. A call of \<open>CreateBook\<close> on the mock while \<open>CreateBookFn\<close> is nil leaves the
  log \<open>CreateBookCalledWith\<close> unchanged; a call while a behaviour function is set appends
  exactly the arguments of that call at the end. Over any run of calls the log is
  therefore the initial log followed by the arguments of the calls made while a
  behaviour function was set, in the order of the calls.
\<close>

theorem mock_CreateBook_log:
  "(CreateBookFn ms = None \<longrightarrow>
      CreateBookCalledWith (snd (mockStore_CreateBook ctx title author ms))
        = CreateBookCalledWith ms)
   \<and> (CreateBookFn ms \<noteq> None \<longrightarrow>
      CreateBookCalledWith (snd (mockStore_CreateBook ctx title author ms))
        = CreateBookCalledWith ms @ [(ctx, title, author)])
   \<and> CreateBookCalledWith (mock_calls calls ms0)
        = CreateBookCalledWith ms0 @ map snd (filter (\<lambda>c. fst c \<noteq> None) calls)"
proof -
  have run: "CreateBookCalledWith (mock_calls calls m)
        = CreateBookCalledWith m @ map snd (filter (\<lambda>c. fst c \<noteq> None) calls)" for m
  proof (induction calls arbitrary: m)
    case Nil
    show ?case by simp
  next
    case (Cons c calls)
    obtain fn cx t a where c: "c = (fn, cx, t, a)" by (cases c) auto
    show ?case
      by (cases fn) (simp_all add: c Cons.IH mockStore_CreateBook_def)
  qed
  show ?thesis
    using run by (auto simp: mockStore_CreateBook_def)
qed

theorem mock_CreateBook_log_witness:
  "CreateBookCalledWith
     (mock_calls
        [(None, None, ''Dune'', ''Frank Herbert''),
         (Some test_CreateBookFn, None, ''Norse Mythology'', ''Neil Gaiman''),
         (None, None, ''Emma'', ''Jane Austen''),
         (Some test_CreateBookFn, None, ''Dune'', ''Frank Herbert'')]
        \<lparr>CreateBookCalledWith = [], CreateBookFn = None\<rparr>)
    = [(None, ''Norse Mythology'', ''Neil Gaiman''), (None, ''Dune'', ''Frank Herbert'')]"
  using mock_CreateBook_log
    [of "\<lparr>CreateBookCalledWith = [], CreateBookFn = None\<rparr>" None "''x''" "''y''"
        "[(None, None, ''Dune'', ''Frank Herbert''),
          (Some test_CreateBookFn, None, ''Norse Mythology'', ''Neil Gaiman''),
          (None, None, ''Emma'', ''Jane Austen''),
          (Some test_CreateBookFn, None, ''Dune'', ''Frank Herbert'')]"
        "\<lparr>CreateBookCalledWith = [], CreateBookFn = None\<rparr>"]
  by simp

end
